theory Spec2Isabelle
  imports Complex_Main
begin

section \<open>Locations (locations.py)\<close>

text \<open>
  Exceptions of the Python code are values: a function that can raise returns
  \<open>error + 'a\<close>, with \<open>Inl\<close> for the exception.
\<close>

datatype error = ZeroDivisionError | ValueError | KeyError | NodeNotFound | NetworkXNoPath

text \<open>The enum \<open>CapitalType\<close>.\<close>

datatype CapitalType = primary | admin | minor | unspecified

text \<open>
  A \<open>Country\<close> instance is a mutable object (its list of cities grows), and the code
  compares countries with \<open>==\<close>, which is object identity since the class defines no
  \<open>__eq__\<close>. Instances therefore live in a store and are named by their address; a
  \<open>City\<close> holds the address of its country.
\<close>

type_synonym country_ref = nat

record City =
  name :: string
  coordinate :: "real \<times> real"
  capital_type :: CapitalType
  country :: country_ref
  city_id :: string

record Country =
  name :: string
  iso3 :: string
  cities :: "City list"

text \<open>
  The process-wide state: the store of \<open>Country\<close> instances (the address of an instance
  is its index), the class attribute \<open>Country.countries\<close> (a dict from names to
  instances) and the class attribute \<open>City.cities\<close> (a dict from city ids to
  instances, kept as an association list since the code iterates over it in insertion
  order).
\<close>

record World =
  instances :: "Country list"
  Country_countries :: "string \<rightharpoonup> country_ref"
  City_cities :: "(string \<times> City) list"

text \<open>\<open>str.upper\<close>, on ASCII letters (ISO codes are ASCII).\<close>

definition upper_char :: "char \<Rightarrow> char" where
  "upper_char c =
     (let n = (of_char c :: nat) in if 97 \<le> n \<and> n \<le> 122 then char_of (n - 32) else c)"

definition upper :: "string \<Rightarrow> string" where
  "upper s = map upper_char s"

text \<open>
  \<open>Country.__init__\<close>: builds the instance and stores it under its name, whatever
  the dict held under that name before. Returns the new instance's address and the
  new state.
\<close>

definition Country_init :: "World \<Rightarrow> string \<Rightarrow> string \<Rightarrow> country_ref \<times> World" where
  "Country_init w nm iso3_code =
     (let self = length (instances w);
          obj = \<lparr>Country.name = nm, iso3 = upper iso3_code, cities = []\<rparr>
      in (self, w\<lparr>instances := instances w @ [obj],
                   Country_countries := (Country_countries w)(nm \<mapsto> self)\<rparr>))"

text \<open>
  \<open>Country.get_cities\<close>. The argument defaults to \<open>None\<close>; the test
  \<open>not capital_types\<close> is true for \<open>None\<close> and for the empty list.
\<close>

fun get_cities :: "Country \<Rightarrow> CapitalType list option \<Rightarrow> City list" where
  "get_cities self None = cities self"
| "get_cities self (Some []) = cities self"
| "get_cities self (Some capital_types) =
     filter (\<lambda>city. capital_type city \<in> set capital_types) (cities self)"

text \<open>
  \<open>round\<close> of a Python float: to the nearest integer, a tie going to the even one.
\<close>

definition py_round :: "real \<Rightarrow> int" where
  "py_round x =
     (let f = \<lfloor>x\<rfloor>; r = x - of_int f
      in if r < 1 / 2 then f else if 1 / 2 < r then f + 1
         else if even f then f else f + 1)"

text \<open>
  \<open>City.distance\<close>. The kilometres come from \<open>geopy\<close>'s \<open>great_circle\<close>, a
  library outside the repository; it is the parameter \<open>great_circle\<close>.
\<close>

definition distance :: "(real \<times> real \<Rightarrow> real \<times> real \<Rightarrow> real) \<Rightarrow> City \<Rightarrow> City \<Rightarrow> int" where
  "distance great_circle self other_city =
     py_round (great_circle (coordinate self) (coordinate other_city))"

text \<open>
  Modelled from the spec: the great-circle distance itself, which the code takes from
  \<open>geopy\<close> and which is not in the repository. The spec describes it as the
  great-circle distance in kilometres between the two coordinates (latitude and
  longitude in degrees) in the spherical model with the mean Earth radius: the radius
  times the central angle between the two points. The radius is a parameter. The
  model is over the real numbers; the library computes in binary64.
\<close>

definition great_circle_model :: "real \<Rightarrow> real \<times> real \<Rightarrow> real \<times> real \<Rightarrow> real" where
  "great_circle_model radius a b =
     (let lat1 = fst a * pi / 180; lng1 = snd a * pi / 180;
          lat2 = fst b * pi / 180; lng2 = snd b * pi / 180
      in radius * arccos (sin lat1 * sin lat2 + cos lat1 * cos lat2 * cos (lng2 - lng1)))"

section \<open>Vehicles (vehicles.py)\<close>

datatype Vehicle =
    CrappyCrepeCar int
  | DiplomacyDonutDinghy int int
  | TeleportingTarteTrolley int int

text \<open>
  The three \<open>__init__\<close> methods store their arguments and contain no \<open>raise\<close>.
\<close>

definition CrappyCrepeCar_init :: "int \<Rightarrow> error + Vehicle" where
  "CrappyCrepeCar_init speed = Inr (CrappyCrepeCar speed)"

definition DiplomacyDonutDinghy_init :: "int \<Rightarrow> int \<Rightarrow> error + Vehicle" where
  "DiplomacyDonutDinghy_init in_country_speed between_primary_speed =
     Inr (DiplomacyDonutDinghy in_country_speed between_primary_speed)"

definition TeleportingTarteTrolley_init :: "int \<Rightarrow> int \<Rightarrow> error + Vehicle" where
  "TeleportingTarteTrolley_init travel_time max_distance =
     Inr (TeleportingTarteTrolley travel_time max_distance)"

text \<open>A travel time is an integer number of hours or \<open>math.inf\<close>.\<close>

datatype hours = Hours int | MathInf

text \<open>
  \<open>ceil(d / speed)\<close>: the true division raises on a zero divisor. The quotient is
  taken exactly; Python rounds it to a binary64 first, which leaves the ceiling
  unchanged for distances on Earth.
\<close>

definition ceil_div :: "int \<Rightarrow> int \<Rightarrow> error + hours" where
  "ceil_div d speed =
     (if speed = 0 then Inl ZeroDivisionError
      else Inr (Hours \<lceil>real_of_int d / real_of_int speed\<rceil>))"

fun compute_travel_time ::
  "(real \<times> real \<Rightarrow> real \<times> real \<Rightarrow> real) \<Rightarrow> Vehicle \<Rightarrow> City \<Rightarrow> City \<Rightarrow> error + hours" where
  "compute_travel_time gc (CrappyCrepeCar speed) departure arrival =
     (let d = distance gc departure arrival in ceil_div d speed)"
| "compute_travel_time gc (DiplomacyDonutDinghy in_country_speed between_primary_speed)
       departure arrival =
     (let in_country = (country departure = country arrival)
      in if \<not> in_country \<and>
            (capital_type departure \<noteq> primary \<or> capital_type arrival \<noteq> primary)
         then Inr MathInf
         else let d = distance gc departure arrival
              in ceil_div d (if in_country then in_country_speed else between_primary_speed))"
| "compute_travel_time gc (TeleportingTarteTrolley travel_time max_distance)
       departure arrival =
     (let d = distance gc departure arrival
      in if d \<ge> max_distance then Inr MathInf else Inr (Hours travel_time))"

section \<open>Trips (trip.py)\<close>

record Trip =
  sequence :: "City list"

definition Trip_init :: "City \<Rightarrow> Trip" where
  "Trip_init departure = \<lparr>sequence = [departure]\<rparr>"

definition add_next_city :: "Trip \<Rightarrow> City \<Rightarrow> Trip" where
  "add_next_city self city = self\<lparr>sequence := sequence self @ [city]\<rparr>"

text \<open>
  The loop of \<open>total_travel_time\<close> over \<open>i = 0 .. len(sequence) - 2\<close>, on the rest
  of the sequence from position \<open>i\<close> and the running \<open>total_time\<close>.
\<close>

fun total_travel_time_loop ::
  "(real \<times> real \<Rightarrow> real \<times> real \<Rightarrow> real) \<Rightarrow> Vehicle \<Rightarrow> City list \<Rightarrow> int \<Rightarrow> error + hours" where
  "total_travel_time_loop gc vehicle (source # destination # rest) total_time =
     (case compute_travel_time gc vehicle source destination of
        Inl e \<Rightarrow> Inl e
      | Inr MathInf \<Rightarrow> Inr MathInf
      | Inr (Hours time) \<Rightarrow>
          total_travel_time_loop gc vehicle (destination # rest) (total_time + time))"
| "total_travel_time_loop gc vehicle [source] total_time = Inr (Hours total_time)"
| "total_travel_time_loop gc vehicle [] total_time = Inr (Hours total_time)"

definition total_travel_time ::
  "(real \<times> real \<Rightarrow> real \<times> real \<Rightarrow> real) \<Rightarrow> Trip \<Rightarrow> Vehicle \<Rightarrow> error + hours" where
  "total_travel_time gc self vehicle = total_travel_time_loop gc vehicle (sequence self) 0"

text \<open>The list comprehension of \<open>find_fastest_vehicle\<close>: the first exception ends it.\<close>

fun travel_times_of ::
  "(real \<times> real \<Rightarrow> real \<times> real \<Rightarrow> real) \<Rightarrow> Trip \<Rightarrow> Vehicle list \<Rightarrow> error + hours list" where
  "travel_times_of gc self [] = Inr []"
| "travel_times_of gc self (vehicle # vehicles) =
     (case total_travel_time gc self vehicle of
        Inl e \<Rightarrow> Inl e
      | Inr t \<Rightarrow> (case travel_times_of gc self vehicles of
                    Inl e \<Rightarrow> Inl e
                  | Inr ts \<Rightarrow> Inr (t # ts)))"

text \<open>Python's \<open><\<close> on travel times, and \<open>min\<close>, which raises on an empty list.\<close>

fun hours_less :: "hours \<Rightarrow> hours \<Rightarrow> bool" where
  "hours_less (Hours a) (Hours b) = (a < b)"
| "hours_less (Hours a) MathInf = True"
| "hours_less MathInf _ = False"

definition min_step :: "hours \<Rightarrow> hours \<Rightarrow> hours" where
  "min_step x m = (if hours_less x m then x else m)"

fun py_min :: "hours list \<Rightarrow> error + hours" where
  "py_min [] = Inl ValueError"
| "py_min (t # ts) = Inr (fold min_step ts t)"

text \<open>
  The search loop of \<open>find_fastest_vehicle\<close>. It returns the tuple
  \<open>(vehicles[i], minimum)\<close>; when the loop ends without a match, the method returns
  Python's \<open>None\<close> (no tuple). The first component of the tuple is a \<open>Vehicle option\<close>
  so that the tuple \<open>(None, inf)\<close> of the docstring can be written.
\<close>

datatype fastest = Tuple "Vehicle option" hours | NoTuple

fun first_match :: "Vehicle list \<Rightarrow> hours list \<Rightarrow> hours \<Rightarrow> fastest" where
  "first_match (vehicle # vehicles) (t # travel_times) minimum =
     (if t = minimum then Tuple (Some vehicle) minimum
      else first_match vehicles travel_times minimum)"
| "first_match _ _ minimum = NoTuple"

definition find_fastest_vehicle ::
  "(real \<times> real \<Rightarrow> real \<times> real \<Rightarrow> real) \<Rightarrow> Trip \<Rightarrow> Vehicle list \<Rightarrow> error + fastest" where
  "find_fastest_vehicle gc self vehicles =
     (case travel_times_of gc self vehicles of
        Inl e \<Rightarrow> Inl e
      | Inr travel_times \<Rightarrow>
          (case py_min travel_times of
             Inl e \<Rightarrow> Inl e
           | Inr minimum \<Rightarrow> Inr (first_match vehicles travel_times minimum)))"

section \<open>Path finding (path_finding.py)\<close>

text \<open>A Python dict, in insertion order: assigning to a present key keeps its place.\<close>

fun dict_set :: "'k \<Rightarrow> 'v \<Rightarrow> ('k \<times> 'v) list \<Rightarrow> ('k \<times> 'v) list" where
  "dict_set k v [] = [(k, v)]"
| "dict_set k v ((k', v') # kvs) =
     (if k' = k then (k, v) # kvs else (k', v') # dict_set k v kvs)"

text \<open>
  A \<open>networkx.Graph\<close> as its adjacency dict: every node with the dict of its
  neighbours, each neighbour with the \<open>weight\<close> attribute of the edge. The value
  that \<open>plot_graph_for_vehicle\<close> stores as weight is the one its walrus expression
  binds, the result of the comparison with \<open>inf\<close>: a \<open>bool\<close>.
\<close>

type_synonym Graph = "(string \<times> (string \<times> bool) list) list"

definition add_node :: "Graph \<Rightarrow> string \<Rightarrow> Graph" where
  "add_node graph n = (case map_of graph n of None \<Rightarrow> graph @ [(n, [])] | Some _ \<Rightarrow> graph)"

definition nbrs_of :: "Graph \<Rightarrow> string \<Rightarrow> (string \<times> bool) list" where
  "nbrs_of graph n = (case map_of graph n of None \<Rightarrow> [] | Some nbrs \<Rightarrow> nbrs)"

text \<open>\<open>add_edge\<close> adds the two nodes when they are missing, then sets the attribute in the
  neighbour dicts of both.\<close>

definition add_edge :: "Graph \<Rightarrow> string \<Rightarrow> string \<Rightarrow> bool \<Rightarrow> Graph" where
  "add_edge graph u v weight =
     (let g1 = add_node (add_node graph u) v;
          g2 = dict_set u (dict_set v weight (nbrs_of g1 u)) g1
      in dict_set v (dict_set u weight (nbrs_of g2 v)) g2)"

fun add_nodes :: "Graph \<Rightarrow> City list \<Rightarrow> Graph" where
  "add_nodes graph [] = graph"
| "add_nodes graph (city # rest) = add_nodes (add_node graph (city_id city)) rest"

text \<open>
  The loops of \<open>plot_graph_for_vehicle\<close>: the inner one over the destinations
  \<open>cities[j]\<close>, \<open>j > i\<close>, the outer one over the sources \<open>cities[i]\<close>. In
  \<open>if weight := vehicle.compute_travel_time(source, destination) == inf\<close> the
  comparison binds tighter than \<open>:=\<close>, so \<open>weight\<close> is the truth value of the
  comparison.
\<close>

fun inner_loop ::
  "(real \<times> real \<Rightarrow> real \<times> real \<Rightarrow> real) \<Rightarrow> Vehicle \<Rightarrow> Graph \<Rightarrow> City \<Rightarrow> City list \<Rightarrow> error + Graph" where
  "inner_loop gc vehicle graph source [] = Inr graph"
| "inner_loop gc vehicle graph source (destination # rest) =
     (case compute_travel_time gc vehicle source destination of
        Inl e \<Rightarrow> Inl e
      | Inr t \<Rightarrow>
          (let weight = (t = MathInf)
           in if weight then inner_loop gc vehicle graph source rest
              else inner_loop gc vehicle
                     (add_edge graph (city_id source) (city_id destination) weight) source rest))"

fun outer_loop ::
  "(real \<times> real \<Rightarrow> real \<times> real \<Rightarrow> real) \<Rightarrow> Vehicle \<Rightarrow> Graph \<Rightarrow> City list \<Rightarrow> error + Graph" where
  "outer_loop gc vehicle graph [] = Inr graph"
| "outer_loop gc vehicle graph (source # rest) =
     (case inner_loop gc vehicle graph source rest of
        Inl e \<Rightarrow> Inl e
      | Inr graph' \<Rightarrow> outer_loop gc vehicle graph' rest)"

definition plot_graph_for_vehicle ::
  "(real \<times> real \<Rightarrow> real \<times> real \<Rightarrow> real) \<Rightarrow> World \<Rightarrow> Vehicle \<Rightarrow> error + Graph" where
  "plot_graph_for_vehicle gc w vehicle =
     (let all_cities = map snd (City_cities w)
      in outer_loop gc vehicle (add_nodes [] all_cities) all_cities)"

text \<open>The loop of \<open>find_shortest_path\<close> over \<open>path[1:]\<close>.\<close>

fun add_path_cities :: "World \<Rightarrow> Trip \<Rightarrow> string list \<Rightarrow> error + Trip" where
  "add_path_cities w trip [] = Inr trip"
| "add_path_cities w trip (cid # rest) =
     (case map_of (City_cities w) cid of
        None \<Rightarrow> Inl KeyError
      | Some city \<Rightarrow> add_path_cities w (add_next_city trip city) rest)"

text \<open>
  \<open>find_shortest_path\<close>. The search itself is \<open>networkx\<close>'s \<open>dijkstra_path\<close>, a
  library outside the repository: it is the parameter \<open>dijkstra_path\<close>, which returns
  a list of nodes or raises. \<open>NetworkXNoPath\<close> is caught and gives \<open>None\<close>.
\<close>

definition find_shortest_path ::
  "(real \<times> real \<Rightarrow> real \<times> real \<Rightarrow> real) \<Rightarrow> (Graph \<Rightarrow> string \<Rightarrow> string \<Rightarrow> error + string list) \<Rightarrow>
   World \<Rightarrow> Vehicle \<Rightarrow> City \<Rightarrow> City \<Rightarrow> error + Trip option" where
  "find_shortest_path gc dijkstra_path w vehicle from_city to_city =
     (case plot_graph_for_vehicle gc w vehicle of
        Inl e \<Rightarrow> Inl e
      | Inr graph \<Rightarrow>
          (case dijkstra_path graph (city_id from_city) (city_id to_city) of
             Inl e \<Rightarrow> (if e = NetworkXNoPath then Inr None else Inl e)
           | Inr path \<Rightarrow>
               (case add_path_cities w (Trip_init from_city) (tl path) of
                  Inl e \<Rightarrow> Inl e
                | Inr trip \<Rightarrow> Inr (Some trip))))"

section \<open>The search of the library\<close>

text \<open>
  To run \<open>find_shortest_path\<close> on an example, the algorithm of \<open>networkx\<close>'s
  \<open>dijkstra_path\<close> is written out: Dijkstra's algorithm with a binary heap of
  triples (distance, insertion count, node) whose count comes from the counter \<open>c\<close> of
  the library (here \<open>counter\<close>), the dicts \<open>dist\<close> of final distances,
  \<open>seen\<close> of tentative ones and \<open>paths\<close> of the paths found. The weight of an
  edge is added to a distance, where Python reads \<open>False\<close> as 0 and \<open>True\<close> as 1.
\<close>

record search =
  dist_d :: "(string \<times> int) list"
  seen :: "(string \<times> int) list"
  fringe :: "(int \<times> nat \<times> string) list"
  counter :: nat
  paths :: "(string \<times> string list) list"

text \<open>
  The heap is kept as a list sorted by (distance, count); the counts are pairwise
  different, so \<open>heappop\<close> returns its head.
\<close>

fun heappush :: "(int \<times> nat \<times> string) list \<Rightarrow> int \<times> nat \<times> string \<Rightarrow> (int \<times> nat \<times> string) list" where
  "heappush [] x = [x]"
| "heappush (y # ys) x =
     (if fst x < fst y \<or> (fst x = fst y \<and> fst (snd x) < fst (snd y)) then x # y # ys
      else y # heappush ys x)"

definition push_node :: "string \<Rightarrow> string \<Rightarrow> int \<Rightarrow> search \<Rightarrow> error + search" where
  "push_node v u vu_dist st =
     (case map_of (paths st) v of
        None \<Rightarrow> Inl KeyError
      | Some p \<Rightarrow> Inr (st\<lparr>seen := dict_set u vu_dist (seen st),
                           fringe := heappush (fringe st) (vu_dist, counter st, u),
                           counter := counter st + 1,
                           paths := dict_set u (p @ [u]) (paths st)\<rparr>))"

definition relax_one :: "string \<Rightarrow> int \<Rightarrow> string \<times> bool \<Rightarrow> search \<Rightarrow> error + search" where
  "relax_one v dv ue st =
     (let u = fst ue; e = snd ue; cost = (if e then 1 else 0); vu_dist = dv + cost
      in case map_of (dist_d st) u of
           Some u_dist \<Rightarrow> if vu_dist < u_dist then Inl ValueError else Inr st
         | None \<Rightarrow>
             (case map_of (seen st) u of
                None \<Rightarrow> push_node v u vu_dist st
              | Some seen_u \<Rightarrow> if vu_dist < seen_u then push_node v u vu_dist st else Inr st))"

fun relax :: "string \<Rightarrow> int \<Rightarrow> (string \<times> bool) list \<Rightarrow> search \<Rightarrow> error + search" where
  "relax v dv [] st = Inr st"
| "relax v dv (ue # rest) st =
     (case relax_one v dv ue st of
        Inl err \<Rightarrow> Inl err
      | Inr st' \<Rightarrow> relax v dv rest st')"

function dijkstra_loop :: "Graph \<Rightarrow> string \<Rightarrow> search \<Rightarrow> error + search" where
  "dijkstra_loop G target st =
     (case fringe st of
        [] \<Rightarrow> Inr st
      | (d, _, v) # fr \<Rightarrow>
          (if map_of (dist_d st) v \<noteq> None then dijkstra_loop G target (st\<lparr>fringe := fr\<rparr>)
           else if v = target then Inr (st\<lparr>fringe := fr, dist_d := dict_set v d (dist_d st)\<rparr>)
           else (case map_of G v of
                   None \<Rightarrow> Inl KeyError
                 | Some nbrs \<Rightarrow>
                     (case relax v d nbrs (st\<lparr>fringe := fr, dist_d := dict_set v d (dist_d st)\<rparr>) of
                        Inl err \<Rightarrow> Inl err
                      | Inr st' \<Rightarrow> dijkstra_loop G target st'))))"
  by pat_completeness auto

text \<open>
  The loop ends: a step either settles a node that was not settled, or only pops the
  heap. The nodes that can still be settled are those of the graph and of the heap.
\<close>

definition graph_nodes :: "Graph \<Rightarrow> string set" where
  "graph_nodes G = fst ` set G \<union> (\<Union>(n, nbrs) \<in> set G. fst ` set nbrs)"

definition fringe_nodes :: "search \<Rightarrow> string set" where
  "fringe_nodes st = set (map (\<lambda>x. snd (snd x)) (fringe st))"

definition settled :: "search \<Rightarrow> string set" where
  "settled st = set (map fst (dist_d st))"

definition open_nodes :: "Graph \<Rightarrow> search \<Rightarrow> string set" where
  "open_nodes G st = (graph_nodes G \<union> fringe_nodes st) - settled st"

lemma set_heappush: "set (heappush xs x) = insert x (set xs)"
  by (induction xs) auto

lemma finite_graph_nodes: "finite (graph_nodes G)"
  by (auto simp: graph_nodes_def)

lemma nbrs_in_graph: "map_of G v = Some nbrs \<Longrightarrow> fst ` set nbrs \<subseteq> graph_nodes G"
  by (force simp: graph_nodes_def dest: map_of_SomeD)

lemma keys_dict_set: "set (map fst (dict_set k v kvs)) = insert k (set (map fst kvs))"
  by (induction k v kvs rule: dict_set.induct) (simp_all add: insert_commute)

lemma push_node_keeps:
  assumes "push_node v u x st = Inr st'"
  shows "dist_d st' = dist_d st" and "fringe_nodes st' = insert u (fringe_nodes st)"
  using assms by (auto simp: push_node_def fringe_nodes_def set_heappush split: option.splits)

lemma relax_one_cases:
  assumes "relax_one v dv ue st = Inr st'"
  shows "st' = st \<or> push_node v (fst ue) (dv + (if snd ue then 1 else 0)) st = Inr st'"
proof (cases "map_of (dist_d st) (fst ue)")
  case (Some u_dist)
  with assms show ?thesis
    by (simp add: relax_one_def Let_def split: if_splits)
next
  case None
  note not_settled = this
  show ?thesis
  proof (cases "map_of (seen st) (fst ue)")
    case None
    with not_settled assms show ?thesis
      by (simp add: relax_one_def Let_def)
  next
    case (Some seen_u)
    with not_settled assms show ?thesis
      by (simp add: relax_one_def Let_def split: if_splits)
  qed
qed

lemma relax_one_keeps:
  assumes "relax_one v dv ue st = Inr st'"
  shows "dist_d st' = dist_d st" and "fringe_nodes st' \<subseteq> insert (fst ue) (fringe_nodes st)"
proof -
  from relax_one_cases[OF assms]
  have "dist_d st' = dist_d st \<and> fringe_nodes st' \<subseteq> insert (fst ue) (fringe_nodes st)"
  proof
    assume "st' = st"
    then show ?thesis by blast
  next
    assume "push_node v (fst ue) (dv + (if snd ue then 1 else 0)) st = Inr st'"
    from push_node_keeps[OF this] show ?thesis by simp
  qed
  then show "dist_d st' = dist_d st" and "fringe_nodes st' \<subseteq> insert (fst ue) (fringe_nodes st)"
    by simp_all
qed

lemma relax_keeps:
  "relax v dv nbrs st = Inr st' \<Longrightarrow>
   dist_d st' = dist_d st \<and> fringe_nodes st' \<subseteq> fringe_nodes st \<union> set (map fst nbrs)"
proof (induction nbrs arbitrary: st)
  case Nil
  then show ?case by simp
next
  case (Cons ue rest)
  from Cons.prems obtain st1 where
    one: "relax_one v dv ue st = Inr st1" and more: "relax v dv rest st1 = Inr st'"
    by (cases "relax_one v dv ue st") simp_all
  have names: "set (map fst (ue # rest)) = insert (fst ue) (set (map fst rest))"
    by simp
  from Cons.IH[OF more] relax_one_keeps[OF one]
  have "dist_d st' = dist_d st" and "fringe_nodes st' \<subseteq> fringe_nodes st1 \<union> set (map fst rest)"
    and "fringe_nodes st1 \<subseteq> insert (fst ue) (fringe_nodes st)"
    by simp_all
  then show ?case unfolding names by (intro conjI) (assumption, blast)
qed

lemma finite_open_nodes: "finite (open_nodes G st)"
  by (simp add: open_nodes_def finite_graph_nodes fringe_nodes_def)

lemma open_nodes_pop:
  assumes "fringe st = x # fr"
  shows "open_nodes G (st\<lparr>fringe := fr\<rparr>) \<subseteq> open_nodes G st"
  using assms by (auto simp: open_nodes_def fringe_nodes_def settled_def)

lemma open_nodes_settle:
  assumes "fringe st = (d, n, v) # fr" and "map_of (dist_d st) v = None"
    and "map_of G v = Some nbrs"
    and "relax v d nbrs (st\<lparr>fringe := fr, dist_d := dict_set v d (dist_d st)\<rparr>) = Inr st'"
  shows "open_nodes G st' \<subset> open_nodes G st"
proof -
  let ?st2 = "st\<lparr>fringe := fr, dist_d := dict_set v d (dist_d st)\<rparr>"
  from relax_keeps[OF assms(4)]
  have d: "dist_d st' = dist_d ?st2"
    and f: "fringe_nodes st' \<subseteq> fringe_nodes ?st2 \<union> set (map fst nbrs)"
    by simp_all
  have s: "settled st' = insert v (settled st)"
    unfolding settled_def d using keys_dict_set[of v d "dist_d st"] by simp
  have "fringe_nodes ?st2 \<subseteq> fringe_nodes st"
    using assms(1) by (auto simp: fringe_nodes_def)
  moreover have "set (map fst nbrs) \<subseteq> graph_nodes G"
    using nbrs_in_graph[OF assms(3)] by simp
  ultimately have sub: "graph_nodes G \<union> fringe_nodes st' \<subseteq> graph_nodes G \<union> fringe_nodes st"
    using f by blast
  have vf: "v \<in> fringe_nodes st"
    using assms(1) by (simp add: fringe_nodes_def)
  have vs: "v \<notin> settled st"
    using assms(2) by (simp add: settled_def map_of_eq_None_iff)
  from sub s vf vs show ?thesis
    unfolding open_nodes_def by blast
qed

termination dijkstra_loop
proof (relation "measures [\<lambda>(G, target, st). card (open_nodes G st),
    \<lambda>(G, target, st). length (fringe st)]", goal_cases)
  case 1
  then show ?case by simp
next
  case (2 G target st x fr d y n v)
  then have f: "fringe st = x # fr" by simp
  have "card (open_nodes G (st\<lparr>fringe := fr\<rparr>)) \<le> card (open_nodes G st)"
    by (rule card_mono[OF finite_open_nodes open_nodes_pop[OF f]])
  with f show ?case by auto
next
  case (3 G target st x fr d y n v nbrs st')
  then have "open_nodes G st' \<subset> open_nodes G st"
    using open_nodes_settle[of st d n v fr G nbrs st'] by simp
  from psubset_card_mono[OF finite_open_nodes this]
  show ?case by simp
qed

text \<open>
  \<open>dijkstra_path\<close>: a source that is no node of the graph raises \<open>NodeNotFound\<close>,
  the path from a node to itself is the node alone, and a target that the search does
  not reach raises \<open>NetworkXNoPath\<close>.
\<close>

definition dijkstra_path :: "Graph \<Rightarrow> string \<Rightarrow> string \<Rightarrow> error + string list" where
  "dijkstra_path G source target =
     (if map_of G source = None then Inl NodeNotFound
      else if target = source then Inr [target]
      else (case dijkstra_loop G target
                   \<lparr>dist_d = [], seen = [(source, 0)], fringe = [(0, 0, source)], counter = 1,
                    paths = [(source, [source])]\<rparr> of
              Inl err \<Rightarrow> Inl err
            | Inr st \<Rightarrow>
                (case map_of (dist_d st) target of
                   None \<Rightarrow> Inl NetworkXNoPath
                 | Some _ \<Rightarrow>
                     (case map_of (paths st) target of
                        None \<Rightarrow> Inl NetworkXNoPath
                      | Some path \<Rightarrow> Inr path))))"

section \<open>Notions used in the properties\<close>

text \<open>The legs of a trip: the consecutive pairs of its sequence.\<close>

fun legs :: "City list \<Rightarrow> (City \<times> City) list" where
  "legs (a # b # rest) = (a, b) # legs (b # rest)"
| "legs [a] = []"
| "legs [] = []"

text \<open>A vehicle none of whose speeds is zero: its travel time never divides by zero.\<close>

fun nonzero_speed :: "Vehicle \<Rightarrow> bool" where
  "nonzero_speed (CrappyCrepeCar speed) = (speed \<noteq> 0)"
| "nonzero_speed (DiplomacyDonutDinghy in_country_speed between_primary_speed) =
     (in_country_speed \<noteq> 0 \<and> between_primary_speed \<noteq> 0)"
| "nonzero_speed (TeleportingTarteTrolley travel_time max_distance) = True"

text \<open>The weights that occur in a graph.\<close>

definition weights :: "Graph \<Rightarrow> bool set" where
  "weights graph = (\<Union>nbrs \<in> set (map snd graph). set (map snd nbrs))"

section \<open>Example data\<close>

text \<open>The cities of \<open>create_example_countries_and_cities\<close>.\<close>

definition melbourne :: City where
  "melbourne = \<lparr>City.name = ''Melbourne'', coordinate = (-37.8136, 144.9631),
     capital_type = admin, country = 0, city_id = ''1036533631''\<rparr>"

definition canberra :: City where
  "canberra = \<lparr>City.name = ''Canberra'', coordinate = (-35.2931, 149.1269),
     capital_type = primary, country = 0, city_id = ''1036142029''\<rparr>"

definition sydney :: City where
  "sydney = \<lparr>City.name = ''Sydney'', coordinate = (-33.865, 151.2094),
     capital_type = admin, country = 0, city_id = ''1036074917''\<rparr>"

definition tokyo :: City where
  "tokyo = \<lparr>City.name = ''Tokyo'', coordinate = (35.6839, 139.7744),
     capital_type = primary, country = 1, city_id = ''1392685764''\<rparr>"

text \<open>
  Great-circle kilometres between these cities, as the spherical model with the mean
  Earth radius gives them (to one decimal).
\<close>

definition example_km :: "real \<times> real \<Rightarrow> real \<times> real \<Rightarrow> real" where
  "example_km a b =
     (if a = b then 0
      else if {a, b} = {coordinate melbourne, coordinate canberra} then 465.6
      else if {a, b} = {coordinate melbourne, coordinate sydney} then 713.7
      else if {a, b} = {coordinate canberra, coordinate sydney} then 248.1
      else if {a, b} = {coordinate melbourne, coordinate tokyo} then 8190.0
      else if {a, b} = {coordinate canberra, coordinate tokyo} then 7951.6
      else 7824.3)"

text \<open>
  A country with two cities classified \<open>primary\<close>, and the capital of a neighbouring
  country; the kilometres are again those of the spherical model.
\<close>

definition pretoria :: City where
  "pretoria = \<lparr>City.name = ''Pretoria'', coordinate = (-25.7461, 28.1881),
     capital_type = primary, country = 0, city_id = ''pretoria''\<rparr>"

definition cape_town :: City where
  "cape_town = \<lparr>City.name = ''Cape Town'', coordinate = (-33.9249, 18.4241),
     capital_type = primary, country = 0, city_id = ''cape_town''\<rparr>"

definition maseru :: City where
  "maseru = \<lparr>City.name = ''Maseru'', coordinate = (-29.3167, 27.4833),
     capital_type = primary, country = 1, city_id = ''maseru''\<rparr>"

definition southern_africa :: World where
  "southern_africa =
     \<lparr>instances =
        [\<lparr>Country.name = ''South Africa'', iso3 = ''ZAF'', cities = [pretoria, cape_town]\<rparr>,
         \<lparr>Country.name = ''Lesotho'', iso3 = ''LSO'', cities = [maseru]\<rparr>],
      Country_countries = [''South Africa'' \<mapsto> 0, ''Lesotho'' \<mapsto> 1],
      City_cities = [(''pretoria'', pretoria), (''maseru'', maseru), (''cape_town'', cape_town)]\<rparr>"

definition southern_africa_km :: "real \<times> real \<Rightarrow> real \<times> real \<Rightarrow> real" where
  "southern_africa_km a b =
     (if a = b then 0
      else if {a, b} = {coordinate pretoria, coordinate cape_town} then 1307.9
      else if {a, b} = {coordinate pretoria, coordinate maseru} then 403.1
      else 998.54)"

definition empty_world :: World where
  "empty_world = \<lparr>instances = [], Country_countries = Map.empty, City_cities = []\<rparr>"

lemmas example_defs = distance_def py_round_def example_km_def melbourne_def sydney_def
  canberra_def tokyo_def Let_def doubleton_eq_iff ceil_div_def

section \<open>Distances\<close>

lemma great_circle_model_sym: "great_circle_model radius a b = great_circle_model radius b a"
proof -
  have "cos (snd b * pi / 180 - snd a * pi / 180) = cos (snd a * pi / 180 - snd b * pi / 180)"
    using cos_minus[of "snd a * pi / 180 - snd b * pi / 180"] by simp
  then show ?thesis
    by (simp add: great_circle_model_def Let_def mult.commute)
qed

lemma great_circle_model_self: "great_circle_model radius a a = 0"
proof -
  have "sin (fst a * pi / 180) * sin (fst a * pi / 180)
      + cos (fst a * pi / 180) * cos (fst a * pi / 180) = 1"
    using sin_cos_squared_add3[of "fst a * pi / 180"] by (simp add: add.commute)
  then show ?thesis
    by (simp add: great_circle_model_def Let_def)
qed

lemma py_round_0: "py_round 0 = 0"
  by (simp add: py_round_def)

text \<open>
  C7: with the great-circle distance of the spherical model, for every radius, the
  distance between two cities is the same in both directions, and the distance from a
  city to itself is 0. This holds for all cities, registered or not.
\<close>

theorem distance_symmetric_zero:
  "distance (great_circle_model radius) A B = distance (great_circle_model radius) B A \<and>
   distance (great_circle_model radius) A A = 0"
proof
  show "distance (great_circle_model radius) A B = distance (great_circle_model radius) B A"
    unfolding distance_def
    by (simp only: great_circle_model_sym[of radius "coordinate A" "coordinate B"])
  show "distance (great_circle_model radius) A A = 0"
    unfolding distance_def by (simp only: great_circle_model_self py_round_0)
qed

section \<open>Travel times\<close>

lemma nonzero_speed_returns:
  "nonzero_speed vehicle \<Longrightarrow> \<exists>r. compute_travel_time gc vehicle a b = Inr r"
  by (cases vehicle) (simp_all add: Let_def ceil_div_def)

lemma zero_speed_raises:
  "compute_travel_time gc (CrappyCrepeCar 0) a b = Inl ZeroDivisionError"
  by (simp add: ceil_div_def)

lemma dinghy_zero_speed_raises:
  "country a = country b \<Longrightarrow>
   compute_travel_time gc (DiplomacyDonutDinghy 0 between_primary_speed) a b
     = Inl ZeroDivisionError"
  by (simp add: ceil_div_def)

text \<open>
  C6: for a \<open>TeleportingTarteTrolley\<close> the travel time is infinite exactly when the
  distance is at least the maximum distance (so also when it equals it), and it is the
  fixed time, whatever the distance, when the distance is below the maximum.
\<close>

theorem trolley_travel_time:
  "(compute_travel_time gc (TeleportingTarteTrolley fixedTime maxDistance) A B = Inr MathInf
      \<longleftrightarrow> distance gc A B \<ge> maxDistance) \<and>
   (distance gc A B = maxDistance \<longrightarrow>
      compute_travel_time gc (TeleportingTarteTrolley fixedTime maxDistance) A B = Inr MathInf) \<and>
   (distance gc A B < maxDistance \<longrightarrow>
      compute_travel_time gc (TeleportingTarteTrolley fixedTime maxDistance) A B =
        Inr (Hours fixedTime))"
  by (simp add: Let_def)

theorem trolley_travel_time_witness:
  "distance example_km melbourne sydney = 714 \<and>
   compute_travel_time example_km (TeleportingTarteTrolley 3 2000) melbourne sydney = Inr (Hours 3) \<and>
   compute_travel_time example_km (TeleportingTarteTrolley 3 714) melbourne sydney = Inr MathInf \<and>
   compute_travel_time example_km (TeleportingTarteTrolley 3 715) melbourne sydney = Inr (Hours 3)"
proof -
  have d: "distance example_km melbourne sydney = 714"
    by (simp add: example_defs)
  from d trolley_travel_time [of example_km 3 2000 melbourne sydney]
    trolley_travel_time [of example_km 3 714 melbourne sydney]
    trolley_travel_time [of example_km 3 715 melbourne sydney]
  show ?thesis by simp
qed



text \<open>
  C3 does not hold: the constructors accept non-positive parameters and return the
  vehicle.
\<close>

theorem constructors_nonpositive_counterexample:
  "CrappyCrepeCar_init 0 = Inr (CrappyCrepeCar 0) \<and>
   DiplomacyDonutDinghy_init (- 100) 0 = Inr (DiplomacyDonutDinghy (- 100) 0) \<and>
   TeleportingTarteTrolley_init 0 (- 2000) = Inr (TeleportingTarteTrolley 0 (- 2000))"
  by (simp add: CrappyCrepeCar_init_def DiplomacyDonutDinghy_init_def
      TeleportingTarteTrolley_init_def)

text \<open>
  C3, amended: the constructors of the three vehicles check nothing. For all
  parameters, positive or not, the construction succeeds and the vehicle holds the
  parameters as given.
\<close>

theorem constructors_accept_everything:
  "CrappyCrepeCar_init speed = Inr (CrappyCrepeCar speed) \<and>
   DiplomacyDonutDinghy_init in_country_speed between_primary_speed =
     Inr (DiplomacyDonutDinghy in_country_speed between_primary_speed) \<and>
   TeleportingTarteTrolley_init travel_time max_distance =
     Inr (TeleportingTarteTrolley travel_time max_distance)"
  by (simp add: CrappyCrepeCar_init_def DiplomacyDonutDinghy_init_def
      TeleportingTarteTrolley_init_def)

section \<open>Trips\<close>

lemma loop_all_finite:
  "map (\<lambda>(a, b). compute_travel_time gc v a b) (legs cs) = map (\<lambda>t. Inr (Hours t)) ts \<Longrightarrow>
   total_travel_time_loop gc v cs total_time = Inr (Hours (total_time + sum_list ts))"
proof (induction cs arbitrary: ts total_time rule: legs.induct)
  case (1 a b rest)
  from "1.prems" obtain t ts' where ts: "ts = t # ts'"
    and leg: "compute_travel_time gc v a b = Inr (Hours t)"
    and more: "map (\<lambda>(a, b). compute_travel_time gc v a b) (legs (b # rest))
                 = map (\<lambda>t. Inr (Hours t)) ts'"
    by (cases ts) auto
  from "1.IH"[OF more, of "total_time + t"] leg ts show ?case
    by (simp add: add.assoc)
next
  case (2 a)
  then show ?case by simp
next
  case 3
  then show ?case by simp
qed

lemma loop_infinite_leg:
  "\<forall>leg \<in> set (legs (pre @ [a])). \<exists>r. compute_travel_time gc v (fst leg) (snd leg) = Inr r \<Longrightarrow>
   compute_travel_time gc v a b = Inr MathInf \<Longrightarrow>
   total_travel_time_loop gc v (pre @ a # b # post) total_time = Inr MathInf"
proof (induction pre arbitrary: total_time rule: legs.induct)
  case (1 x y rest)
  from "1.prems"(1) obtain r where r: "compute_travel_time gc v x y = Inr r"
    by auto
  from "1.prems"(1) have rest: "\<forall>leg \<in> set (legs ((y # rest) @ [a])).
      \<exists>r. compute_travel_time gc v (fst leg) (snd leg) = Inr r"
    by simp
  show ?case
  proof (cases r)
    case (Hours t)
    with r "1.IH"[OF rest "1.prems"(2), of "total_time + t"] show ?thesis by simp
  next
    case MathInf
    with r show ?thesis by simp
  qed
next
  case (2 x)
  from "2.prems"(1) obtain r where r: "compute_travel_time gc v x a = Inr r"
    by auto
  with "2.prems"(2) show ?case by (cases r) simp_all
next
  case 3
  then show ?case by simp
qed

lemma legs_split: "(a, b) \<in> set (legs cs) \<Longrightarrow> \<exists>pre post. cs = pre @ a # b # post"
proof (induction cs rule: legs.induct)
  case (1 x y rest)
  show ?case
  proof (cases "(a, b) = (x, y)")
    case True
    then have "x # y # rest = [] @ a # b # rest" by simp
    then show ?thesis by blast
  next
    case False
    with "1.prems" have "(a, b) \<in> set (legs (y # rest))" by auto
    from "1.IH"[OF this] obtain pre post where "y # rest = pre @ a # b # post" by blast
    then have "x # y # rest = (x # pre) @ a # b # post" by simp
    then show ?thesis by blast
  qed
next
  case (2 x)
  then show ?case by simp
next
  case 3
  then show ?case by simp
qed

text \<open>
  C4 does not hold for every vehicle: the constructors accept a speed of zero, and
  with the dinghy of in-country speed zero the leg from Canberra to Sydney raises
  \<open>ZeroDivisionError\<close>, so that \<open>total_travel_time\<close> raises too, although the
  leg from Sydney to Tokyo is infinite.
\<close>

theorem total_travel_time_raises_counterexample:
  "compute_travel_time example_km (DiplomacyDonutDinghy 0 500) sydney tokyo = Inr MathInf \<and>
   total_travel_time example_km \<lparr>sequence = [canberra, sydney, tokyo]\<rparr>
     (DiplomacyDonutDinghy 0 500) = Inl ZeroDivisionError"
  by (simp add: total_travel_time_def example_defs)

text \<open>
  C4, amended: \<open>total_travel_time\<close> returns the sum of the travel times of the legs
  when all of them are finite. It returns infinity at a leg whose travel time is
  infinite, whatever the legs after it, when every leg before it has returned a travel
  time; for a vehicle whose speeds are not zero every leg returns one, so that for
  such a vehicle any infinite leg makes the total infinite, whatever the other legs.
  A trip of a single city takes 0 hours.
\<close>

theorem total_travel_time_sum_or_inf:
  "(\<forall>ts. map (\<lambda>(a, b). compute_travel_time gc vehicle a b) (legs (sequence self))
           = map (\<lambda>t. Inr (Hours t)) ts
      \<longrightarrow> total_travel_time gc self vehicle = Inr (Hours (sum_list ts))) \<and>
   (\<forall>pre a b post.
      sequence self = pre @ a # b # post \<and>
      (\<forall>leg \<in> set (legs (pre @ [a])).
         \<exists>r. compute_travel_time gc vehicle (fst leg) (snd leg) = Inr r) \<and>
      compute_travel_time gc vehicle a b = Inr MathInf
      \<longrightarrow> total_travel_time gc self vehicle = Inr MathInf) \<and>
   (nonzero_speed vehicle \<and>
      (\<exists>leg \<in> set (legs (sequence self)).
         compute_travel_time gc vehicle (fst leg) (snd leg) = Inr MathInf)
      \<longrightarrow> total_travel_time gc self vehicle = Inr MathInf) \<and>
   total_travel_time gc (Trip_init departure) vehicle = Inr (Hours 0)"
proof (intro conjI allI impI)
  fix ts
  assume "map (\<lambda>(a, b). compute_travel_time gc vehicle a b) (legs (sequence self))
           = map (\<lambda>t. Inr (Hours t)) ts"
  from loop_all_finite[OF this, of 0]
  show "total_travel_time gc self vehicle = Inr (Hours (sum_list ts))"
    by (simp add: total_travel_time_def)
next
  fix pre a b post
  assume h: "sequence self = pre @ a # b # post \<and>
      (\<forall>leg \<in> set (legs (pre @ [a])).
         \<exists>r. compute_travel_time gc vehicle (fst leg) (snd leg) = Inr r) \<and>
      compute_travel_time gc vehicle a b = Inr MathInf"
  then have "total_travel_time_loop gc vehicle (pre @ a # b # post) 0 = Inr MathInf"
    by (intro loop_infinite_leg) simp_all
  with h show "total_travel_time gc self vehicle = Inr MathInf"
    by (simp add: total_travel_time_def)
next
  assume h: "nonzero_speed vehicle \<and>
      (\<exists>leg \<in> set (legs (sequence self)).
         compute_travel_time gc vehicle (fst leg) (snd leg) = Inr MathInf)"
  then obtain a b where leg: "(a, b) \<in> set (legs (sequence self))"
    and inf: "compute_travel_time gc vehicle a b = Inr MathInf"
    by auto
  from legs_split[OF leg] obtain pre post where s: "sequence self = pre @ a # b # post"
    by blast
  from h nonzero_speed_returns have "\<forall>leg \<in> set (legs (pre @ [a])).
      \<exists>r. compute_travel_time gc vehicle (fst leg) (snd leg) = Inr r"
    by blast
  from loop_infinite_leg[OF this inf, of post 0] s
  show "total_travel_time gc self vehicle = Inr MathInf"
    by (simp add: total_travel_time_def)
next
  show "total_travel_time gc (Trip_init departure) vehicle = Inr (Hours 0)"
    by (simp add: total_travel_time_def Trip_init_def)
qed

theorem total_travel_time_sum_or_inf_witness:
  "total_travel_time example_km \<lparr>sequence = [melbourne, canberra, tokyo]\<rparr> (CrappyCrepeCar 200)
     = Inr (Hours (sum_list [3, 40])) \<and>
   total_travel_time example_km \<lparr>sequence = [canberra, melbourne, tokyo, sydney]\<rparr>
     (DiplomacyDonutDinghy 100 500) = Inr MathInf \<and>
   total_travel_time example_km \<lparr>sequence = [sydney, tokyo, melbourne]\<rparr>
     (TeleportingTarteTrolley 3 2000) = Inr MathInf"
proof -
  let ?car = "CrappyCrepeCar 200" and ?dinghy = "DiplomacyDonutDinghy 100 500"
  let ?trolley = "TeleportingTarteTrolley 3 2000"
  have car: "map (\<lambda>(a, b). compute_travel_time example_km ?car a b)
      (legs (sequence \<lparr>sequence = [melbourne, canberra, tokyo]\<rparr>))
    = map (\<lambda>t. Inr (Hours t)) [3, 40]"
    by (simp add: example_defs)
  have s: "sequence \<lparr>sequence = [canberra, melbourne, tokyo, sydney]\<rparr>
    = [canberra] @ melbourne # tokyo # [sydney]"
    by simp
  have before: "\<forall>leg \<in> set (legs ([canberra] @ [melbourne])).
      \<exists>r. compute_travel_time example_km ?dinghy (fst leg) (snd leg) = Inr r"
    by (simp add: example_defs)
  have inf: "compute_travel_time example_km ?dinghy melbourne tokyo = Inr MathInf"
    by (simp add: example_defs)
  have nz: "nonzero_speed ?trolley"
    by simp
  have some: "\<exists>leg \<in> set (legs (sequence \<lparr>sequence = [sydney, tokyo, melbourne]\<rparr>)).
      compute_travel_time example_km ?trolley (fst leg) (snd leg) = Inr MathInf"
    by (simp add: example_defs)
  from total_travel_time_sum_or_inf
    [of example_km ?car "\<lparr>sequence = [melbourne, canberra, tokyo]\<rparr>"] car
  have 1: "total_travel_time example_km \<lparr>sequence = [melbourne, canberra, tokyo]\<rparr> ?car
     = Inr (Hours (sum_list [3, 40]))"
    by blast
  from total_travel_time_sum_or_inf
    [of example_km ?dinghy "\<lparr>sequence = [canberra, melbourne, tokyo, sydney]\<rparr>"] s before inf
  have 2: "total_travel_time example_km \<lparr>sequence = [canberra, melbourne, tokyo, sydney]\<rparr> ?dinghy
     = Inr MathInf"
    by blast
  from total_travel_time_sum_or_inf
    [of example_km ?trolley "\<lparr>sequence = [sydney, tokyo, melbourne]\<rparr>"] nz some
  have 3: "total_travel_time example_km \<lparr>sequence = [sydney, tokyo, melbourne]\<rparr> ?trolley
     = Inr MathInf"
    by blast
  from 1 2 3 show ?thesis by simp
qed

section \<open>The fastest vehicle\<close>

lemma length_travel_times_of:
  "travel_times_of gc self vehicles = Inr ts \<Longrightarrow> length ts = length vehicles"
  by (induction vehicles arbitrary: ts) (auto split: sum.splits)

lemma hours_less_irrefl: "\<not> hours_less t t"
  by (cases t) simp_all

lemma not_less_trans: "\<not> hours_less b m \<Longrightarrow> hours_less b a \<Longrightarrow> \<not> hours_less a m"
  by (cases a; cases b; cases m) simp_all

lemma not_less_trans': "\<not> hours_less b m \<Longrightarrow> \<not> hours_less a b \<Longrightarrow> \<not> hours_less a m"
  by (cases a; cases b; cases m) simp_all


lemma fold_min_least:
  "fold min_step ts t \<in> set (t # ts) \<and> (\<forall>x \<in> set (t # ts). \<not> hours_less x (fold min_step ts t))"
proof (induction ts arbitrary: t)
  case Nil
  then show ?case by (simp add: hours_less_irrefl)
next
  case (Cons y ts)
  let ?m = "fold min_step ts (min_step y t)"
  from Cons.IH[of "min_step y t"] have mem: "?m \<in> set (min_step y t # ts)"
    and least: "\<forall>x \<in> set (min_step y t # ts). \<not> hours_less x ?m"
    by simp_all
  have t': "\<not> hours_less (min_step y t) ?m" using least by simp
  have yt: "\<not> hours_less t ?m \<and> \<not> hours_less y ?m"
  proof (cases "hours_less y t")
    case True
    with t' have y: "\<not> hours_less y ?m" by (simp add: min_step_def)
    from not_less_trans[OF y True] y show ?thesis by simp
  next
    case False
    with t' have nt: "\<not> hours_less t ?m" by (simp add: min_step_def)
    from not_less_trans'[OF nt False] nt show ?thesis by simp
  qed
  have "min_step y t = y \<or> min_step y t = t" by (simp add: min_step_def)
  with mem have "?m \<in> set (t # y # ts)" by auto
  moreover from least yt have "\<forall>x \<in> set (t # y # ts). \<not> hours_less x ?m" by simp
  ultimately show ?case by simp
qed


lemma py_min_least:
  assumes "py_min ts = Inr m"
  shows "m \<in> set ts" and "\<forall>x \<in> set ts. \<not> hours_less x m"
proof -
  from assms obtain t ts' where ts: "ts = t # ts'" and m: "m = fold min_step ts' t"
    by (cases ts) auto
  from fold_min_least[of ts' t] ts m show "m \<in> set ts" and "\<forall>x \<in> set ts. \<not> hours_less x m"
    by simp_all
qed

lemma first_match_first:
  "length vehicles = length ts \<Longrightarrow> m \<in> set ts \<Longrightarrow>
   \<exists>i < length vehicles. first_match vehicles ts m = Tuple (Some (vehicles ! i)) m \<and>
      ts ! i = m \<and> (\<forall>j < i. ts ! j \<noteq> m)"
proof (induction ts arbitrary: vehicles)
  case Nil
  then show ?case by simp
next
  case (Cons t travel_times)
  from Cons.prems(1) obtain vehicle rest where v: "vehicles = vehicle # rest"
    and len: "length rest = length travel_times"
    by (cases vehicles) simp_all
  show ?case
  proof (cases "t = m")
    case True
    have "0 < length vehicles \<and> first_match vehicles (t # travel_times) m = Tuple (Some (vehicles ! 0)) m \<and>
      (t # travel_times) ! 0 = m \<and> (\<forall>j < (0::nat). (t # travel_times) ! j \<noteq> m)"
      using True v by simp
    then show ?thesis by (rule exI[of _ 0])
  next
    case False
    with Cons.prems(2) have "m \<in> set travel_times"
      by simp
    from Cons.IH[OF len this] obtain i where i: "i < length rest"
      "first_match rest travel_times m = Tuple (Some (rest ! i)) m"
      "travel_times ! i = m" "\<forall>j < i. travel_times ! j \<noteq> m"
      by blast
    have before: "\<forall>j < Suc i. (t # travel_times) ! j \<noteq> m"
    proof (intro allI impI)
      fix j assume "j < Suc i"
      with False i(4) show "(t # travel_times) ! j \<noteq> m"
        by (cases j) simp_all
    qed
    have "Suc i < length vehicles \<and>
      first_match vehicles (t # travel_times) m = Tuple (Some (vehicles ! Suc i)) m \<and>
      (t # travel_times) ! Suc i = m \<and> (\<forall>j < Suc i. (t # travel_times) ! j \<noteq> m)"
      using i(1,2,3) False v before by simp
    then show ?thesis by (rule exI[of _ "Suc i"])
  qed
qed


lemma find_fastest_vehicle_first_minimum:
  assumes "travel_times_of gc self vehicles = Inr ts" and "vehicles \<noteq> []"
  shows "\<exists>i < length vehicles.
           find_fastest_vehicle gc self vehicles = Inr (Tuple (Some (vehicles ! i)) (ts ! i)) \<and>
           (\<forall>j < length vehicles. \<not> hours_less (ts ! j) (ts ! i)) \<and>
           (\<forall>j < i. ts ! j \<noteq> ts ! i)"
proof -
  from length_travel_times_of[OF assms(1)] have len: "length vehicles = length ts"
    by simp
  with assms(2) obtain m where m: "py_min ts = Inr m"
    by (cases ts) auto
  from py_min_least[OF m] have mem: "m \<in> set ts" and least: "\<forall>x \<in> set ts. \<not> hours_less x m"
    by simp_all
  from first_match_first[OF len mem] obtain i where i: "i < length vehicles"
    "first_match vehicles ts m = Tuple (Some (vehicles ! i)) m" "ts ! i = m"
    "\<forall>j < i. ts ! j \<noteq> m"
    by blast
  from least len have all: "\<forall>j < length vehicles. \<not> hours_less (ts ! j) m"
    by simp
  have run: "find_fastest_vehicle gc self vehicles = Inr (first_match vehicles ts m)"
    using assms(1) m by (simp add: find_fastest_vehicle_def)
  have "i < length vehicles \<and>
           find_fastest_vehicle gc self vehicles = Inr (Tuple (Some (vehicles ! i)) (ts ! i)) \<and>
           (\<forall>j < length vehicles. \<not> hours_less (ts ! j) (ts ! i)) \<and>
           (\<forall>j < i. ts ! j \<noteq> ts ! i)"
    using i all run by simp
  then show ?thesis by (rule exI[of _ i])
qed

lemma find_fastest_vehicle_all_infinite:
  assumes "travel_times_of gc self (vehicle # vehicles) = Inr ts"
    and "\<forall>t \<in> set ts. t = MathInf"
  shows "find_fastest_vehicle gc self (vehicle # vehicles) = Inr (Tuple (Some vehicle) MathInf)"
proof -
  from find_fastest_vehicle_first_minimum[OF assms(1)] obtain i where
    i: "i < length (vehicle # vehicles)"
    "find_fastest_vehicle gc self (vehicle # vehicles)
       = Inr (Tuple (Some ((vehicle # vehicles) ! i)) (ts ! i))"
    "\<forall>j < i. ts ! j \<noteq> ts ! i"
    by blast
  from length_travel_times_of[OF assms(1)] have len: "length ts = length (vehicle # vehicles)" .
  with assms(2) have all: "\<forall>j < length ts. ts ! j = MathInf"
    by simp
  have "i = 0"
  proof (rule ccontr)
    assume "i \<noteq> 0"
    then have "0 < i" by simp
    with i(3) have "ts ! 0 \<noteq> ts ! i" by blast
    moreover from all len i(1) have "ts ! 0 = MathInf" "ts ! i = MathInf" by simp_all
    ultimately show False by simp
  qed
  moreover from all len have "ts ! 0 = MathInf" by simp
  ultimately show ?thesis using i(2) by simp
qed

text \<open>
  C9: with an empty list of vehicles \<open>find_fastest_vehicle\<close> raises (the \<open>min\<close> of
  an empty list is a \<open>ValueError\<close>) instead of returning a pair, so that the list of
  vehicles is not empty whenever the method returns.
\<close>

theorem find_fastest_vehicle_empty:
  "find_fastest_vehicle gc self [] = Inl ValueError \<and>
   (\<forall>r. find_fastest_vehicle gc self vehicles = Inr r \<longrightarrow> vehicles \<noteq> [])"
  by (auto simp: find_fastest_vehicle_def)

theorem find_fastest_vehicle_empty_witness:
  "find_fastest_vehicle example_km \<lparr>sequence = [melbourne, sydney]\<rparr> [] = Inl ValueError \<and>
   find_fastest_vehicle example_km \<lparr>sequence = [melbourne, sydney]\<rparr> [CrappyCrepeCar 200] =
     Inr (Tuple (Some (CrappyCrepeCar 200)) (Hours 4)) \<and>
   [CrappyCrepeCar 200] \<noteq> []"
  using find_fastest_vehicle_empty
    [of example_km "\<lparr>sequence = [melbourne, sydney]\<rparr>" "[CrappyCrepeCar 200]"]
  by (simp add: find_fastest_vehicle_def total_travel_time_def example_defs)

text \<open>
  C2, at an input where the code departs from it: the trip from Melbourne to Tokyo is
  impossible for both vehicles of the list, and \<open>find_fastest_vehicle\<close> returns the
  first vehicle with infinity, not the pair \<open>(None, inf)\<close> of its docstring.
\<close>

theorem find_fastest_vehicle_never_none:
  "total_travel_time example_km \<lparr>sequence = [melbourne, tokyo]\<rparr> (DiplomacyDonutDinghy 100 500)
     = Inr MathInf \<and>
   total_travel_time example_km \<lparr>sequence = [melbourne, tokyo]\<rparr> (TeleportingTarteTrolley 3 2000)
     = Inr MathInf \<and>
   find_fastest_vehicle example_km \<lparr>sequence = [melbourne, tokyo]\<rparr>
       [DiplomacyDonutDinghy 100 500, TeleportingTarteTrolley 3 2000]
     = Inr (Tuple (Some (DiplomacyDonutDinghy 100 500)) MathInf)"
  by (simp add: find_fastest_vehicle_def total_travel_time_def min_step_def example_defs)

section \<open>Countries\<close>

text \<open>
  C8: when a name that the registry already holds is registered again, no exception
  is raised, the entry of the name becomes the new instance (a different object, with
  the new ISO code in upper case and no city), the older instance stays as it was, and
  the entries of the other names do not change.
\<close>

theorem country_registered_again:
  assumes "Country_countries w nm = Some old" and "old < length (instances w)"
    and "Country_init w nm iso3_code = (self, w')"
  shows "Country_countries w' nm = Some self \<and> self \<noteq> old \<and>
         instances w' ! self = \<lparr>Country.name = nm, iso3 = upper iso3_code, cities = []\<rparr> \<and>
         instances w' ! old = instances w ! old \<and>
         (\<forall>other. other \<noteq> nm \<longrightarrow> Country_countries w' other = Country_countries w other)"
  using assms by (auto simp: Country_init_def Let_def nth_append)

theorem country_registered_again_witness:
  "Country_countries (snd (Country_init (snd (Country_init empty_world ''Australia'' ''AUS''))
       ''Australia'' ''aux'')) ''Australia'' = Some 1 \<and>
   instances (snd (Country_init (snd (Country_init empty_world ''Australia'' ''AUS''))
       ''Australia'' ''aux'')) ! 1 = \<lparr>Country.name = ''Australia'', iso3 = ''AUX'', cities = []\<rparr> \<and>
   instances (snd (Country_init (snd (Country_init empty_world ''Australia'' ''AUS''))
       ''Australia'' ''aux'')) ! 0 = \<lparr>Country.name = ''Australia'', iso3 = ''AUS'', cities = []\<rparr>"
proof -
  define w1 where "w1 = snd (Country_init empty_world ''Australia'' ''AUS'')"
  have a: "Country_countries w1 ''Australia'' = Some 0"
    by (simp add: w1_def Country_init_def empty_world_def)
  have b: "0 < length (instances w1)"
    by (simp add: w1_def Country_init_def empty_world_def)
  have c: "Country_init w1 ''Australia'' ''aux'' = (1, snd (Country_init w1 ''Australia'' ''aux''))"
    by (simp add: w1_def Country_init_def empty_world_def)
  have u: "upper ''aux'' = ''AUX''" "upper ''AUS'' = ''AUS''" by code_simp+
  have i: "instances w1 ! 0 = \<lparr>Country.name = ''Australia'', iso3 = ''AUS'', cities = []\<rparr>"
    by (simp add: w1_def Country_init_def empty_world_def u)
  from country_registered_again [OF a b c] u i show ?thesis
    unfolding w1_def by simp
qed

text \<open>
  C10: \<open>get_cities\<close> called with the empty list of capital types returns all the
  cities of the country, exactly what the call without a filter returns, and not the
  empty selection.
\<close>

theorem get_cities_empty_filter:
  "get_cities self (Some []) = cities self \<and> get_cities self (Some []) = get_cities self None"
  by simp

section \<open>The graph of a vehicle\<close>

lemma values_dict_set: "set (map snd (dict_set k v kvs)) \<subseteq> insert v (set (map snd kvs))"
  by (induction k v kvs rule: dict_set.induct) auto

lemma weights_dict_set: "weights (dict_set n nbrs graph) \<subseteq> set (map snd nbrs) \<union> weights graph"
proof -
  have "set (map snd (dict_set n nbrs graph)) \<subseteq> insert nbrs (set (map snd graph))"
    by (rule values_dict_set)
  then show ?thesis unfolding weights_def by blast
qed

lemma weights_add_node: "weights (add_node graph n) = weights graph"
  by (simp add: add_node_def weights_def split: option.splits)

lemma weights_nbrs_of: "set (map snd (nbrs_of graph n)) \<subseteq> weights graph"
proof (cases "map_of graph n")
  case None
  then show ?thesis by (simp add: nbrs_of_def)
next
  case (Some nbrs)
  then have "nbrs \<in> set (map snd graph)"
    by (force dest: map_of_SomeD)
  with Some show ?thesis unfolding weights_def nbrs_of_def by auto
qed

lemma weights_add_edge: "weights (add_edge graph u v weight) \<subseteq> insert weight (weights graph)"
proof -
  define g1 where "g1 = add_node (add_node graph u) v"
  define g2 where "g2 = dict_set u (dict_set v weight (nbrs_of g1 u)) g1"
  have 1: "weights g1 = weights graph"
    by (simp add: g1_def weights_add_node)
  have "set (map snd (dict_set v weight (nbrs_of g1 u))) \<subseteq> insert weight (weights g1)"
    using values_dict_set[of v weight "nbrs_of g1 u"] weights_nbrs_of[of g1 u] by blast
  with weights_dict_set[of u "dict_set v weight (nbrs_of g1 u)" g1]
  have 2: "weights g2 \<subseteq> insert weight (weights g1)"
    unfolding g2_def by blast
  have "set (map snd (dict_set u weight (nbrs_of g2 v))) \<subseteq> insert weight (weights g2)"
    using values_dict_set[of u weight "nbrs_of g2 v"] weights_nbrs_of[of g2 v] by blast
  with weights_dict_set[of v "dict_set u weight (nbrs_of g2 v)" g2]
  have "weights (dict_set v (dict_set u weight (nbrs_of g2 v)) g2) \<subseteq> insert weight (weights g2)"
    by blast
  with 1 2 show ?thesis
    unfolding add_edge_def Let_def g1_def[symmetric] g2_def[symmetric] by blast
qed

lemma weights_add_nodes: "weights (add_nodes graph cs) = weights graph"
  by (induction cs arbitrary: graph) (simp_all add: weights_add_node)

lemma weights_inner_loop:
  "inner_loop gc vehicle graph source ds = Inr graph' \<Longrightarrow> weights graph' \<subseteq> insert False (weights graph)"
proof (induction ds arbitrary: graph)
  case Nil
  then show ?case by auto
next
  case (Cons destination rest)
  from Cons.prems obtain t where t: "compute_travel_time gc vehicle source destination = Inr t"
    by (cases "compute_travel_time gc vehicle source destination") simp_all
  show ?case
  proof (cases "t = MathInf")
    case True
    with t Cons.prems have "inner_loop gc vehicle graph source rest = Inr graph'"
      by simp
    from Cons.IH[OF this] show ?thesis .
  next
    case False
    with t Cons.prems have "inner_loop gc vehicle
        (add_edge graph (city_id source) (city_id destination) False) source rest = Inr graph'"
      by simp
    from Cons.IH[OF this] weights_add_edge[of graph "city_id source" "city_id destination" False]
    show ?thesis by blast
  qed
qed

lemma weights_outer_loop:
  "outer_loop gc vehicle graph cs = Inr graph' \<Longrightarrow> weights graph' \<subseteq> insert False (weights graph)"
proof (induction cs arbitrary: graph)
  case Nil
  then show ?case by auto
next
  case (Cons source rest)
  from Cons.prems obtain g1 where g1: "inner_loop gc vehicle graph source rest = Inr g1"
    and more: "outer_loop gc vehicle g1 rest = Inr graph'"
    by (cases "inner_loop gc vehicle graph source rest") simp_all
  from Cons.IH[OF more] weights_inner_loop[OF g1] show ?case by blast
qed

lemma plot_graph_weights:
  assumes "plot_graph_for_vehicle gc w vehicle = Inr graph"
  shows "weights graph \<subseteq> {False}"
proof -
  have "weights [] = {}"
    by (simp add: weights_def)
  then have "weights (add_nodes [] (map snd (City_cities w))) = {}"
    by (simp only: weights_add_nodes)
  with weights_outer_loop[of gc vehicle "add_nodes [] (map snd (City_cities w))" "map snd (City_cities w)" graph]
    assms show ?thesis
    by (simp add: plot_graph_for_vehicle_def Let_def)
qed

text \<open>
  C1, at an input where the code departs from it. Pretoria and Cape Town are primary
  capitals of one country, Maseru is the primary capital of another. For the dinghy
  the direct leg takes 14 hours (1308 km at 100 km/h) and the way through Maseru 3
  hours (403 km and 999 km at 500 km/h). Every edge of the graph carries the weight
  \<open>False\<close>, the search returns the direct leg, and the trip of \<open>find_shortest_path\<close>
  takes 14 hours.
\<close>

theorem find_shortest_path_not_fastest:
  "plot_graph_for_vehicle southern_africa_km southern_africa (DiplomacyDonutDinghy 100 500)
     = Inr [(''pretoria'', [(''maseru'', False), (''cape_town'', False)]),
            (''maseru'', [(''pretoria'', False), (''cape_town'', False)]),
            (''cape_town'', [(''pretoria'', False), (''maseru'', False)])] \<and>
   find_shortest_path southern_africa_km dijkstra_path southern_africa
       (DiplomacyDonutDinghy 100 500) pretoria cape_town
     = Inr (Some \<lparr>sequence = [pretoria, cape_town]\<rparr>) \<and>
   total_travel_time southern_africa_km \<lparr>sequence = [pretoria, cape_town]\<rparr>
       (DiplomacyDonutDinghy 100 500) = Inr (Hours 14) \<and>
   total_travel_time southern_africa_km \<lparr>sequence = [pretoria, maseru, cape_town]\<rparr>
       (DiplomacyDonutDinghy 100 500) = Inr (Hours 3)"
proof (intro conjI)
  show "plot_graph_for_vehicle southern_africa_km southern_africa (DiplomacyDonutDinghy 100 500)
     = Inr [(''pretoria'', [(''maseru'', False), (''cape_town'', False)]),
            (''maseru'', [(''pretoria'', False), (''cape_town'', False)]),
            (''cape_town'', [(''pretoria'', False), (''maseru'', False)])]"
    by code_simp
  show "find_shortest_path southern_africa_km dijkstra_path southern_africa
       (DiplomacyDonutDinghy 100 500) pretoria cape_town
     = Inr (Some \<lparr>sequence = [pretoria, cape_town]\<rparr>)"
    by code_simp
  show "total_travel_time southern_africa_km \<lparr>sequence = [pretoria, cape_town]\<rparr>
       (DiplomacyDonutDinghy 100 500) = Inr (Hours 14)"
    by code_simp
  show "total_travel_time southern_africa_km \<lparr>sequence = [pretoria, maseru, cape_town]\<rparr>
       (DiplomacyDonutDinghy 100 500) = Inr (Hours 3)"
    by code_simp
qed

end
